theory Spec2Isabelle
  imports Complex_Main
begin

section \<open>Tile pyramids of tilematrix: the embedding\<close>

text \<open>
  The development follows \<^verbatim>\<open>src/tilematrix/_tilepyramid.py\<close>, the class
  \<^verbatim>\<open>TilePyramid\<close>. Python integers are \<^typ>\<open>int\<close>. Python floats are
  modelled by exact real arithmetic (\<^typ>\<open>real\<close>): the model has neither the
  rounding of binary floating point nor its overflow, so statements about sizes in
  map units are statements about the exact quotients the code approximates.
  Every \<^verbatim>\<open>raise\<close> is a value \<open>Inl e\<close> of a sum type.
\<close>

subsection \<open>Values and errors\<close>

text \<open>
  Arguments whose Python type the code itself inspects (the zoom level, the bounds
  argument) are dynamically typed values.
\<close>

datatype pyval =
    PyNone
  | PyInt int
  | PyFloat real
  | PyStr string
  | PyTuple "pyval list"
  | PyList "pyval list"

text \<open>
  The exceptions of the class are all \<^verbatim>\<open>ValueError\<close>s, told apart by their
  message. \<open>InvalidZoom\<close> is what \<^verbatim>\<open>validate_zoom\<close> raises and
  \<open>ZeroDivisionError\<close> is Python's error for a division by zero.
\<close>

datatype error =
    ValueError string
  | InvalidZoom
  | ZeroDivisionError

definition ConstructionError_grid :: error where
  "ConstructionError_grid = ValueError ''grid definition required''"

definition ConstructionError_metatiling :: error where
  "ConstructionError_metatiling = ValueError ''metatling must be one of 1, 2, 4, 8, 16''"

definition InvalidArgument_bounds :: error where
  "InvalidArgument_bounds =
     ValueError ''bounds must be a tuple of left, bottom, right, top values''"

definition OutOfBounds :: error where
  "OutOfBounds = ValueError ''x or y are outside of grid bounds''"

definition InvalidArgument_on_edge_use :: error where
  "InvalidArgument_on_edge_use = ValueError ''on_edge_use must be one of lb, rb, rt or lt''"

definition InvalidGeometry :: "string \<Rightarrow> error" where
  "InvalidGeometry geom_kind = ValueError (''no valid geometry: '' @ geom_kind)"

text \<open>
  Modelled from the spec: \<^verbatim>\<open>validate_zoom\<close> of the module \<^verbatim>\<open>_funcs\<close>,
  which is not among the sources. The spec: it fails with \<open>InvalidZoom\<close> if zoom is
  negative or non-integer. The model returns the integer the caller goes on to use.
\<close>

definition validate_zoom :: "pyval \<Rightarrow> error + int" where
  "validate_zoom zoom =
     (case zoom of
        PyInt z \<Rightarrow> if z < 0 then Inl InvalidZoom else Inr z
      | _ \<Rightarrow> Inl InvalidZoom)"

text \<open>
  Python's \<^verbatim>\<open>round(v, n)\<close>: the nearest multiple of \<open>10 ^ -n\<close>, a tie going to
  the even one.
\<close>

definition py_round :: "real \<Rightarrow> nat \<Rightarrow> real" where
  "py_round v n =
     (let s = v * 10 ^ n; f = \<lfloor>s\<rfloor>; d = s - of_int f in
      of_int (if d < 1 / 2 then f else if 1 / 2 < d then f + 1
              else if even f then f else f + 1) / 10 ^ n)"

subsection \<open>Grid definition and pyramid\<close>

text \<open>
  Modelled from the spec: the value types of the modules \<^verbatim>\<open>_types\<close> and
  \<^verbatim>\<open>_grid\<close>, which are not among the sources. \<open>Bounds\<close> is the tuple
  \<open>(left, bottom, right, top)\<close>, \<open>Shape\<close> is \<open>(height, width)\<close>, and a
  \<open>GridDefinition\<close> is \<open>{crs, bounds, shape, is_global, type}\<close>.
\<close>

type_synonym Bounds = "real \<times> real \<times> real \<times> real"

record Shape =
  height :: int
  width :: int

record GridDefinition =
  grid_crs :: string
  grid_bounds :: Bounds
  grid_shape :: Shape
  grid_is_global :: bool
  grid_type :: string

text \<open>The attributes \<^verbatim>\<open>__init__\<close> assigns, in its order.\<close>

record TilePyramid =
  grid :: GridDefinition
  bounds :: Bounds
  left :: real
  bottom :: real
  right :: real
  top' :: real
  crs :: string
  is_global :: bool
  metatiling :: int
  tile_size :: int
  metatile_size :: int
  x_size :: real
  y_size :: real

text \<open>
  The constructor of \<^verbatim>\<open>GridDefinition\<close>, its dictionary export, its
  equality and its string forms belong to the module \<^verbatim>\<open>_grid\<close>, as
  \<^verbatim>\<open>ROUND\<close> belongs to \<^verbatim>\<open>_conf\<close>: they are parameters of the
  model. \<open>'d\<close> is the type of an exported grid dictionary. The grid argument of
  the pyramid's constructor is \<^verbatim>\<open>None\<close>, the name of a preset, a dictionary or
  a finished grid definition.
\<close>

datatype 'd grid_arg =
    GridNone
  | GridName string
  | GridDict 'd
  | GridObj GridDefinition

record 'd grid_module =
  GridDefinition_init :: "'d grid_arg \<Rightarrow> error + GridDefinition"
  GridDefinition_to_dict :: "GridDefinition \<Rightarrow> 'd"
  GridDefinition_eq :: "GridDefinition \<Rightarrow> GridDefinition \<Rightarrow> bool"
  GridDefinition_str :: "GridDefinition \<Rightarrow> string"
  GridDefinition_repr :: "GridDefinition \<Rightarrow> string"

text \<open>
  \<^verbatim>\<open>__init__\<close>: the two guards, the grid definition, then the attributes
  (\<open>TilePyramid_attrs\<close> is the block of assignments).
\<close>

definition TilePyramid_attrs :: "nat \<Rightarrow> GridDefinition \<Rightarrow> int \<Rightarrow> int \<Rightarrow> TilePyramid" where
  "TilePyramid_attrs ROUND g ts mt =
     (case grid_bounds g of
        (l, b, r, t) \<Rightarrow>
          \<lparr>grid = g, bounds = grid_bounds g, left = l, bottom = b, right = r, top' = t,
           crs = grid_crs g, is_global = grid_is_global g, metatiling = mt,
           tile_size = ts, metatile_size = ts * mt,
           x_size = py_round (r - l) ROUND, y_size = py_round (t - b) ROUND\<rparr>)"

definition TilePyramid_init ::
  "'d grid_module \<Rightarrow> nat \<Rightarrow> 'd grid_arg \<Rightarrow> int \<Rightarrow> int \<Rightarrow> error + TilePyramid" where
  "TilePyramid_init G ROUND grid_arg ts mt =
     (case grid_arg of
        GridNone \<Rightarrow> Inl ConstructionError_grid
      | _ \<Rightarrow>
          if mt \<notin> {1, 2, 4, 8, 16} then Inl ConstructionError_metatiling
          else (case GridDefinition_init G grid_arg of
                  Inl e \<Rightarrow> Inl e
                | Inr g \<Rightarrow> Inr (TilePyramid_attrs ROUND g ts mt)))"

subsection \<open>Matrix and tile sizes\<close>

definition matrix_width :: "TilePyramid \<Rightarrow> pyval \<Rightarrow> error + int" where
  "matrix_width tp zoom =
     (case validate_zoom zoom of
        Inl e \<Rightarrow> Inl e
      | Inr z \<Rightarrow>
          if metatiling tp = 0 then Inl ZeroDivisionError
          else
            let w = \<lceil>real_of_int (width (grid_shape (grid tp)) * 2 ^ nat z)
                      / real_of_int (metatiling tp)\<rceil>
            in Inr (if w < 1 then 1 else w))"

definition matrix_height :: "TilePyramid \<Rightarrow> pyval \<Rightarrow> error + int" where
  "matrix_height tp zoom =
     (case validate_zoom zoom of
        Inl e \<Rightarrow> Inl e
      | Inr z \<Rightarrow>
          if metatiling tp = 0 then Inl ZeroDivisionError
          else
            let h = \<lceil>real_of_int (height (grid_shape (grid tp)) * 2 ^ nat z)
                      / real_of_int (metatiling tp)\<rceil>
            in Inr (if h < 1 then 1 else h))"

definition tile_width :: "TilePyramid \<Rightarrow> pyval \<Rightarrow> error + int" where
  "tile_width tp zoom =
     (case validate_zoom zoom of
        Inl e \<Rightarrow> Inl e
      | Inr z \<Rightarrow>
          let matrix_pixel = 2 ^ nat z * tile_size tp * width (grid_shape (grid tp));
              tile_pixel = tile_size tp * metatiling tp
          in Inr (if tile_pixel > matrix_pixel then matrix_pixel else tile_pixel))"

definition tile_height :: "TilePyramid \<Rightarrow> pyval \<Rightarrow> error + int" where
  "tile_height tp zoom =
     (case validate_zoom zoom of
        Inl e \<Rightarrow> Inl e
      | Inr z \<Rightarrow>
          let matrix_pixel = 2 ^ nat z * tile_size tp * height (grid_shape (grid tp));
              tile_pixel = tile_size tp * metatiling tp
          in Inr (if tile_pixel > matrix_pixel then matrix_pixel else tile_pixel))"

definition tile_x_size :: "nat \<Rightarrow> TilePyramid \<Rightarrow> pyval \<Rightarrow> error + real" where
  "tile_x_size ROUND tp zoom =
     (case validate_zoom zoom of
        Inl e \<Rightarrow> Inl e
      | Inr z \<Rightarrow>
          (case matrix_width tp zoom of
             Inl e \<Rightarrow> Inl e
           | Inr w \<Rightarrow> Inr (py_round (x_size tp / real_of_int w) ROUND)))"

definition tile_y_size :: "nat \<Rightarrow> TilePyramid \<Rightarrow> pyval \<Rightarrow> error + real" where
  "tile_y_size ROUND tp zoom =
     (case validate_zoom zoom of
        Inl e \<Rightarrow> Inl e
      | Inr z \<Rightarrow>
          (case matrix_height tp zoom of
             Inl e \<Rightarrow> Inl e
           | Inr h \<Rightarrow> Inr (py_round (y_size tp / real_of_int h) ROUND)))"

definition pixel_x_size :: "nat \<Rightarrow> TilePyramid \<Rightarrow> pyval \<Rightarrow> error + real" where
  "pixel_x_size ROUND tp zoom =
     (case validate_zoom zoom of
        Inl e \<Rightarrow> Inl e
      | Inr z \<Rightarrow>
          (case tile_x_size ROUND tp zoom of
             Inl e \<Rightarrow> Inl e
           | Inr txs \<Rightarrow>
               (case tile_width tp zoom of
                  Inl e \<Rightarrow> Inl e
                | Inr tw \<Rightarrow>
                    if tw = 0 then Inl ZeroDivisionError
                    else Inr (py_round (txs / real_of_int tw) ROUND))))"

definition pixel_y_size :: "nat \<Rightarrow> TilePyramid \<Rightarrow> pyval \<Rightarrow> error + real" where
  "pixel_y_size ROUND tp zoom =
     (case validate_zoom zoom of
        Inl e \<Rightarrow> Inl e
      | Inr z \<Rightarrow>
          (case tile_y_size ROUND tp zoom of
             Inl e \<Rightarrow> Inl e
           | Inr tys \<Rightarrow>
               (case tile_height tp zoom of
                  Inl e \<Rightarrow> Inl e
                | Inr th \<Rightarrow>
                    if th = 0 then Inl ZeroDivisionError
                    else Inr (py_round (tys / real_of_int th) ROUND))))"

subsection \<open>Tiles, geometries and the helpers of other modules\<close>

text \<open>
  Modelled from the spec: a \<open>Tile\<close> is \<open>{pyramid, zoom, row, col}\<close> (the
  module \<^verbatim>\<open>_tile\<close> is not among the sources), and a geometry is what the spec
  lists as consumed from the geometry capability: emptiness, validity, its kind, the
  coordinates of a point, the points of a multi-point and its bounds.
\<close>

record Tile =
  tile_pyramid :: TilePyramid
  tile_zoom :: int
  tile_row :: int
  tile_col :: int

record geometry =
  is_empty :: bool
  is_valid :: bool
  geom_type :: string
  geom_x :: real
  geom_y :: real
  geom_points :: "(real \<times> real) list"
  geom_bounds :: pyval

text \<open>
  A generator is modelled by what a consumer that runs it to its end sees: the
  items it yields, and the exception that ends it, if one does.
\<close>

type_synonym 'a gen = "'a list \<times> error option"

type_synonym pybounds = "pyval \<times> pyval \<times> pyval \<times> pyval"

text \<open>
  The helpers imported from \<^verbatim>\<open>_funcs\<close> and the intersection test of a
  prepared geometry with a tile's bounding box are parameters of the model:
  \<^verbatim>\<open>_tile_from_xy\<close>, \<^verbatim>\<open>_global_tiles_from_bounds\<close>,
  \<^verbatim>\<open>_tiles_from_cleaned_bounds\<close>, \<^verbatim>\<open>clip_geometry_to_srs_bounds\<close> and
  \<^verbatim>\<open>prep(...).intersects(tile.bbox())\<close>.
\<close>

record funcs_module =
  funcs_tile_from_xy :: "TilePyramid \<Rightarrow> real \<Rightarrow> real \<Rightarrow> int \<Rightarrow> string \<Rightarrow> error + Tile"
  funcs_global_tiles_from_bounds :: "TilePyramid \<Rightarrow> pybounds \<Rightarrow> int \<Rightarrow> Tile gen"
  funcs_tiles_from_cleaned_bounds :: "TilePyramid \<Rightarrow> pybounds \<Rightarrow> int \<Rightarrow> Tile gen"
  clip_geometry_to_srs_bounds :: "geometry \<Rightarrow> TilePyramid \<Rightarrow> error + geometry"
  prepared_intersects_bbox :: "geometry \<Rightarrow> Tile \<Rightarrow> bool"

subsection \<open>Queries\<close>

definition tiles_from_bounds :: "funcs_module \<Rightarrow> TilePyramid \<Rightarrow> pyval \<Rightarrow> pyval \<Rightarrow> Tile gen" where
  "tiles_from_bounds F tp bnds zoom =
     (case validate_zoom zoom of
        Inl e \<Rightarrow> ([], Some e)
      | Inr z \<Rightarrow>
          (case bnds of
             PyTuple vs \<Rightarrow>
               if length vs \<noteq> 4 then ([], Some InvalidArgument_bounds)
               else
                 let b = (vs ! 0, vs ! 1, vs ! 2, vs ! 3) in
                 if is_global tp then funcs_global_tiles_from_bounds F tp b z
                 else funcs_tiles_from_cleaned_bounds F tp b z
           | _ \<Rightarrow> ([], Some InvalidArgument_bounds)))"

definition tiles_from_bbox :: "funcs_module \<Rightarrow> TilePyramid \<Rightarrow> geometry \<Rightarrow> pyval \<Rightarrow> Tile gen" where
  "tiles_from_bbox F tp g zoom =
     (case validate_zoom zoom of
        Inl e \<Rightarrow> ([], Some e)
      | Inr z \<Rightarrow> tiles_from_bounds F tp (geom_bounds g) zoom)"

definition tile_from_xy ::
  "funcs_module \<Rightarrow> TilePyramid \<Rightarrow> real \<Rightarrow> real \<Rightarrow> pyval \<Rightarrow> string \<Rightarrow> error + Tile" where
  "tile_from_xy F tp x y zoom on_edge_use =
     (case validate_zoom zoom of
        Inl e \<Rightarrow> Inl e
      | Inr z \<Rightarrow>
          if x < left tp \<or> x > right tp \<or> y < bottom tp \<or> y > top' tp then Inl OutOfBounds
          else if on_edge_use \<notin> set [''lb'', ''rb'', ''rt'', ''lt'']
            then Inl InvalidArgument_on_edge_use
          else funcs_tile_from_xy F tp x y z on_edge_use)"

text \<open>The loop over the points of a multi-point: it stops at the first exception.\<close>

fun tiles_from_points ::
  "funcs_module \<Rightarrow> TilePyramid \<Rightarrow> pyval \<Rightarrow> (real \<times> real) list \<Rightarrow> Tile gen" where
  "tiles_from_points F tp zoom [] = ([], None)"
| "tiles_from_points F tp zoom (p # ps) =
     (case tile_from_xy F tp (fst p) (snd p) zoom ''rb'' of
        Inl e \<Rightarrow> ([], Some e)
      | Inr t \<Rightarrow>
          (case tiles_from_points F tp zoom ps of
             (ts, err) \<Rightarrow> (t # ts, err)))"

definition tiles_from_geom :: "funcs_module \<Rightarrow> TilePyramid \<Rightarrow> geometry \<Rightarrow> pyval \<Rightarrow> Tile gen" where
  "tiles_from_geom F tp g zoom =
     (case validate_zoom zoom of
        Inl e \<Rightarrow> ([], Some e)
      | Inr z \<Rightarrow>
          if is_empty g then ([], None)
          else if \<not> is_valid g then ([], Some (InvalidGeometry (geom_type g)))
          else if geom_type g = ''Point'' then
            (case tile_from_xy F tp (geom_x g) (geom_y g) zoom ''rb'' of
               Inl e \<Rightarrow> ([], Some e)
             | Inr t \<Rightarrow> ([t], None))
          else if geom_type g = ''MultiPoint'' then
            tiles_from_points F tp zoom (geom_points g)
          else if geom_type g \<in> set [''LineString'', ''MultiLineString'', ''Polygon'',
                                      ''MultiPolygon'', ''GeometryCollection''] then
            (case clip_geometry_to_srs_bounds F g tp of
               Inl e \<Rightarrow> ([], Some e)
             | Inr prepared_geometry \<Rightarrow>
                 (case tiles_from_bbox F tp g zoom of
                    (ts, err) \<Rightarrow>
                      (filter (\<lambda>t. prepared_intersects_bbox F prepared_geometry t) ts, err)))
          else ([], None))"

subsection \<open>Dictionary form, equality, representation and hash\<close>

text \<open>
  The configuration dictionary has the keys \<^verbatim>\<open>grid\<close>, \<^verbatim>\<open>metatiling\<close> and
  \<^verbatim>\<open>tile_size\<close>; a key may be absent, and \<^verbatim>\<open>TilePyramid(**config_dict)\<close>
  then takes the default of \<^verbatim>\<open>__init__\<close>.
\<close>

record 'd config_dict =
  cfg_grid :: "'d grid_arg option"
  cfg_metatiling :: "int option"
  cfg_tile_size :: "int option"

definition to_dict :: "'d grid_module \<Rightarrow> TilePyramid \<Rightarrow> 'd config_dict" where
  "to_dict G tp =
     \<lparr>cfg_grid = Some (GridDict (GridDefinition_to_dict G (grid tp))),
      cfg_metatiling = Some (metatiling tp),
      cfg_tile_size = Some (tile_size tp)\<rparr>"

definition from_dict :: "'d grid_module \<Rightarrow> nat \<Rightarrow> 'd config_dict \<Rightarrow> error + TilePyramid" where
  "from_dict G ROUND config =
     TilePyramid_init G ROUND
       (case cfg_grid config of None \<Rightarrow> GridNone | Some g \<Rightarrow> g)
       (case cfg_tile_size config of None \<Rightarrow> 256 | Some ts \<Rightarrow> ts)
       (case cfg_metatiling config of None \<Rightarrow> 1 | Some mt \<Rightarrow> mt)"

definition TilePyramid_eq :: "'d grid_module \<Rightarrow> TilePyramid \<Rightarrow> TilePyramid \<Rightarrow> bool" where
  "TilePyramid_eq G self other =
     (GridDefinition_eq G (grid self) (grid other)
      \<and> tile_size self = tile_size other
      \<and> metatiling self = metatiling other)"

definition TilePyramid_ne :: "'d grid_module \<Rightarrow> TilePyramid \<Rightarrow> TilePyramid \<Rightarrow> bool" where
  "TilePyramid_ne G self other = (\<not> TilePyramid_eq G self other)"

text \<open>Python's \<^verbatim>\<open>str\<close> of an integer: its decimal digits, after a minus sign if negative.\<close>

fun str_nat :: "nat \<Rightarrow> string" where
  "str_nat n =
     (if n < 10 then [''0123456789'' ! n]
      else str_nat (n div 10) @ [''0123456789'' ! (n mod 10)])"

declare str_nat.simps [simp del]

definition str_int :: "int \<Rightarrow> string" where
  "str_int i = (if i < 0 then CHR ''-'' # str_nat (nat (- i)) else str_nat (nat i))"

definition TilePyramid_repr :: "'d grid_module \<Rightarrow> TilePyramid \<Rightarrow> string" where
  "TilePyramid_repr G tp =
     ''TilePyramid('' @ GridDefinition_str G (grid tp) @ '', tile_size=''
       @ str_int (tile_size tp) @ '', metatiling='' @ str_int (metatiling tp) @ '')''"

text \<open>\<open>py_hash\<close> is Python's \<^verbatim>\<open>hash\<close> on strings.\<close>

definition TilePyramid_hash :: "(string \<Rightarrow> int) \<Rightarrow> 'd grid_module \<Rightarrow> TilePyramid \<Rightarrow> int" where
  "TilePyramid_hash py_hash G tp =
     py_hash (TilePyramid_repr G tp @ GridDefinition_repr G (grid tp))"

subsection \<open>The words of the specification, and concrete inputs\<close>

text \<open>A valid zoom, as the specification has it: a non-negative integer.\<close>

definition valid_zoom :: "pyval \<Rightarrow> bool" where
  "valid_zoom zoom = (case zoom of PyInt z \<Rightarrow> 0 \<le> z | _ \<Rightarrow> False)"

text \<open>
  The irregular grid of \<^verbatim>\<open>test_irregular_grids\<close>: 161 rows and 315 columns of
  base tiles, whose pixels are squares of 10 map units at the default tile size 256.
\<close>

definition irregular_grid :: GridDefinition where
  "irregular_grid =
     \<lparr>grid_crs = ''EPSG:31259'', grid_bounds = (141920, 89840, 948320, 502000),
      grid_shape = \<lparr>height = 161, width = 315\<rparr>, grid_is_global = False,
      grid_type = ''custom''\<rparr>"

text \<open>
  The pyramid \<^verbatim>\<open>TilePyramid(grid_definition_irregular, metatiling=mt)\<close> of that
  test, with the default tile size 256 and 20 decimals for \<^verbatim>\<open>ROUND\<close>.
\<close>

definition irregular_pyramid :: "int \<Rightarrow> TilePyramid" where
  "irregular_pyramid mt = TilePyramid_attrs 20 irregular_grid 256 mt"

text \<open>A global grid of one row and two columns of base tiles, as the geodetic preset has.\<close>

definition geodetic_grid :: GridDefinition where
  "geodetic_grid =
     \<lparr>grid_crs = ''EPSG:4326'', grid_bounds = (- 180, - 90, 180, 90),
      grid_shape = \<lparr>height = 1, width = 2\<rparr>, grid_is_global = True,
      grid_type = ''geodetic''\<rparr>"

definition geodetic_pyramid :: "int \<Rightarrow> TilePyramid" where
  "geodetic_pyramid mt = TilePyramid_attrs 20 geodetic_grid 256 mt"

text \<open>
  A conformal grid, as the specification has it: the base tiles are squares in map
  units, so the source pixels are.
\<close>

definition conformal :: "TilePyramid \<Rightarrow> bool" where
  "conformal tp =
     (x_size tp / real_of_int (width (grid_shape (grid tp)))
        = y_size tp / real_of_int (height (grid_shape (grid tp))))"

text \<open>
  Instances of the parameters, to run the model on concrete inputs. The grid module
  exports a grid definition as itself and compares structurally; the hash of a
  string is its length; the helpers answer with the tile \<open>(zoom, 0, 0)\<close>.
\<close>

definition plain_grid_module :: "GridDefinition grid_module" where
  "plain_grid_module =
     \<lparr>GridDefinition_init =
        (\<lambda>a. case a of
                GridDict d \<Rightarrow> Inr d
              | GridObj g \<Rightarrow> Inr g
              | _ \<Rightarrow> Inl (ValueError ''invalid grid definition'')),
      GridDefinition_to_dict = (\<lambda>g. g),
      GridDefinition_eq = (\<lambda>g h. g = h),
      GridDefinition_str = grid_crs,
      GridDefinition_repr = grid_crs\<rparr>"

definition length_hash :: "string \<Rightarrow> int" where
  "length_hash s = int (length s)"

definition plain_tile :: "TilePyramid \<Rightarrow> int \<Rightarrow> Tile" where
  "plain_tile tp z = \<lparr>tile_pyramid = tp, tile_zoom = z, tile_row = 0, tile_col = 0\<rparr>"

definition plain_funcs :: funcs_module where
  "plain_funcs =
     \<lparr>funcs_tile_from_xy = (\<lambda>tp x y z on_edge_use. Inr (plain_tile tp z)),
      funcs_global_tiles_from_bounds = (\<lambda>tp b z. ([plain_tile tp z], None)),
      funcs_tiles_from_cleaned_bounds = (\<lambda>tp b z. ([plain_tile tp z], None)),
      clip_geometry_to_srs_bounds = (\<lambda>g tp. Inr g),
      prepared_intersects_bbox = (\<lambda>g t. True)\<rparr>"

text \<open>
  A geometry at the upper left corner of the irregular grid, with the flags and the
  kind given: as a point it is that corner, as a multi-point it is that corner twice.
\<close>

definition sample_geometry :: "bool \<Rightarrow> bool \<Rightarrow> string \<Rightarrow> geometry" where
  "sample_geometry emp val kind =
     \<lparr>is_empty = emp, is_valid = val, geom_type = kind,
      geom_x = 141920, geom_y = 502000,
      geom_points = [(141920, 502000), (141920, 502000)],
      geom_bounds = PyTuple [PyFloat 141920, PyFloat 502000, PyFloat 141920, PyFloat 502000]\<rparr>"

section \<open>Properties\<close>

lemma validate_zoom_Inr: "0 \<le> z \<Longrightarrow> validate_zoom (PyInt z) = Inr z"
  by (simp add: validate_zoom_def)

lemma validate_zoom_invalid: "\<not> valid_zoom zoom \<Longrightarrow> validate_zoom zoom = Inl InvalidZoom"
  by (cases zoom) (simp_all add: validate_zoom_def valid_zoom_def)

lemma validate_zoom_valid:
  "valid_zoom zoom \<Longrightarrow> \<exists>z. zoom = PyInt z \<and> 0 \<le> z \<and> validate_zoom zoom = Inr z"
  by (cases zoom) (simp_all add: validate_zoom_def valid_zoom_def)

lemmas irregular_defs = irregular_pyramid_def TilePyramid_attrs_def irregular_grid_def

lemmas geodetic_defs = geodetic_pyramid_def TilePyramid_attrs_def geodetic_grid_def

lemma TilePyramid_attrs_sel:
  "grid (TilePyramid_attrs R g ts mt) = g"
  "bounds (TilePyramid_attrs R g ts mt) = grid_bounds g"
  "metatiling (TilePyramid_attrs R g ts mt) = mt"
  "tile_size (TilePyramid_attrs R g ts mt) = ts"
  "metatile_size (TilePyramid_attrs R g ts mt) = ts * mt"
  "crs (TilePyramid_attrs R g ts mt) = grid_crs g"
  "is_global (TilePyramid_attrs R g ts mt) = grid_is_global g"
  by (simp_all add: TilePyramid_attrs_def split: prod.splits)

lemma TilePyramid_attrs_sizes:
  "left (TilePyramid_attrs R g ts mt) = fst (grid_bounds g)"
  "bottom (TilePyramid_attrs R g ts mt) = fst (snd (grid_bounds g))"
  "right (TilePyramid_attrs R g ts mt) = fst (snd (snd (grid_bounds g)))"
  "top' (TilePyramid_attrs R g ts mt) = snd (snd (snd (grid_bounds g)))"
  "x_size (TilePyramid_attrs R g ts mt)
     = py_round (fst (snd (snd (grid_bounds g))) - fst (grid_bounds g)) R"
  "y_size (TilePyramid_attrs R g ts mt)
     = py_round (snd (snd (snd (grid_bounds g))) - fst (snd (grid_bounds g))) R"
  by (simp_all add: TilePyramid_attrs_def split: prod.splits)

lemma TilePyramid_init_Inr:
  assumes "TilePyramid_init G R ga ts mt = Inr tp"
  shows "ga \<noteq> GridNone \<and> mt \<in> {1, 2, 4, 8, 16}
         \<and> (\<exists>g. GridDefinition_init G ga = Inr g \<and> tp = TilePyramid_attrs R g ts mt)"
  using assms
  by (cases ga) (auto simp: TilePyramid_init_def split: if_splits sum.splits)


lemma tiles_from_points_all:
  "tiles_from_points F tp zoom ps = (ts, None)
     \<longleftrightarrow> map (\<lambda>p. tile_from_xy F tp (fst p) (snd p) zoom ''rb'') ps = map Inr ts"
proof (induction ps arbitrary: ts)
  case Nil
  show ?case by auto
next
  case (Cons p ps)
  show ?case
  proof (cases "tile_from_xy F tp (fst p) (snd p) zoom ''rb''")
    case (Inl e)
    then show ?thesis by (cases ts) auto
  next
    case (Inr t)
    obtain us err where r: "tiles_from_points F tp zoom ps = (us, err)"
      by (cases "tiles_from_points F tp zoom ps")
    show ?thesis
    proof (cases ts)
      case Nil
      then show ?thesis using Inr r by simp
    next
      case (Cons t' ts')
      then show ?thesis using Inr r Cons.IH [of ts'] by auto
    qed
  qed
qed

lemma irregular_pyramid_1_sel:
  "left (irregular_pyramid 1) = 141920" "right (irregular_pyramid 1) = 948320"
  "bottom (irregular_pyramid 1) = 89840" "top' (irregular_pyramid 1) = 502000"
  "is_global (irregular_pyramid 1) = False"
  by (simp_all add: irregular_defs)

lemma plain_funcs_sel:
  "funcs_tile_from_xy plain_funcs = (\<lambda>tp x y z on_edge_use. Inr (plain_tile tp z))"
  "funcs_global_tiles_from_bounds plain_funcs = (\<lambda>tp b z. ([plain_tile tp z], None))"
  "funcs_tiles_from_cleaned_bounds plain_funcs = (\<lambda>tp b z. ([plain_tile tp z], None))"
  by (simp_all add: plain_funcs_def)

lemma tile_from_xy_plain_corner:
  "tile_from_xy plain_funcs (irregular_pyramid 1) 141920 502000 (PyInt 0) ''rb''
     = Inr (plain_tile (irregular_pyramid 1) 0)"
  by (simp add: tile_from_xy_def validate_zoom_def irregular_pyramid_1_sel plain_funcs_sel)

subsection \<open>Matrix dimensions\<close>

text \<open>
  Claim C1. For a pyramid whose metatiling is one of 1, 2, 4, 8, 16 (what the
  constructor admits) and a non-negative integer zoom \<open>z\<close>, \<open>matrix_width\<close> is
  \<open>max 1 \<lceil>shape.width * 2 ^ z / metatiling\<rceil>\<close> and \<open>matrix_height\<close> is
  \<open>max 1 \<lceil>shape.height * 2 ^ z / metatiling\<rceil>\<close>, so both are at least 1; for a zoom
  that is negative or not an integer both fail with \<open>InvalidZoom\<close>.
\<close>

theorem matrix_size_formula:
  assumes "metatiling tp \<in> {1, 2, 4, 8, 16}"
  shows "(0 \<le> z \<longrightarrow>
           matrix_width tp (PyInt z)
             = Inr (max 1 \<lceil>real_of_int (width (grid_shape (grid tp))) * 2 ^ nat z
                              / real_of_int (metatiling tp)\<rceil>)
           \<and> matrix_height tp (PyInt z)
             = Inr (max 1 \<lceil>real_of_int (height (grid_shape (grid tp))) * 2 ^ nat z
                              / real_of_int (metatiling tp)\<rceil>)
           \<and> (\<exists>w h. matrix_width tp (PyInt z) = Inr w \<and> matrix_height tp (PyInt z) = Inr h
                 \<and> 1 \<le> w \<and> 1 \<le> h))
       \<and> (\<not> valid_zoom zoom \<longrightarrow>
             matrix_width tp zoom = Inl InvalidZoom \<and> matrix_height tp zoom = Inl InvalidZoom)"
proof -
  from assms have m: "metatiling tp \<noteq> 0" by auto
  have inv: "\<not> valid_zoom zoom \<longrightarrow>
      matrix_width tp zoom = Inl InvalidZoom \<and> matrix_height tp zoom = Inl InvalidZoom"
    by (simp add: matrix_width_def matrix_height_def validate_zoom_invalid)
  have w: "matrix_width tp (PyInt z)
             = Inr (max 1 \<lceil>real_of_int (width (grid_shape (grid tp))) * 2 ^ nat z
                              / real_of_int (metatiling tp)\<rceil>)" if "0 \<le> z"
    using that m by (simp add: matrix_width_def validate_zoom_Inr Let_def max_def)
  have h: "matrix_height tp (PyInt z)
             = Inr (max 1 \<lceil>real_of_int (height (grid_shape (grid tp))) * 2 ^ nat z
                              / real_of_int (metatiling tp)\<rceil>)" if "0 \<le> z"
    using that m by (simp add: matrix_height_def validate_zoom_Inr Let_def max_def)
  from w h inv show ?thesis by simp
qed

theorem matrix_size_formula_witness:
  "metatiling (irregular_pyramid 2) \<in> {1, 2, 4, 8, 16}
   \<and> matrix_width (irregular_pyramid 2) (PyInt 0) = Inr 158
   \<and> matrix_height (irregular_pyramid 2) (PyInt 0) = Inr 81
   \<and> matrix_width (irregular_pyramid 16) (PyInt 3) = Inr 158
   \<and> \<not> valid_zoom (PyInt (- 1))
   \<and> matrix_width (irregular_pyramid 2) (PyInt (- 1)) = Inl InvalidZoom
   \<and> \<not> valid_zoom (PyFloat 1)
   \<and> matrix_height (irregular_pyramid 2) (PyFloat 1) = Inl InvalidZoom"
proof -
  have m: "metatiling (irregular_pyramid 2) \<in> {1, 2, 4, 8, 16}"
    and m16: "metatiling (irregular_pyramid 16) \<in> {1, 2, 4, 8, 16}"
    by (simp_all add: irregular_defs)
  have v: "\<not> valid_zoom (PyInt (- 1))" "\<not> valid_zoom (PyFloat 1)"
    by (simp_all add: valid_zoom_def)
  have s: "width (grid_shape (grid (irregular_pyramid mt))) = 315"
    "height (grid_shape (grid (irregular_pyramid mt))) = 161"
    "metatiling (irregular_pyramid mt) = mt" for mt
    by (simp_all add: irregular_defs)
  show ?thesis
    using m v
      matrix_size_formula [OF m, of 0 "PyInt (- 1)"]
      matrix_size_formula [OF m, of 0 "PyFloat 1"]
      matrix_size_formula [OF m16, of 3 "PyInt (- 1)"]
    by (simp add: s)
qed

subsection \<open>Pixel sizes of a tile\<close>

text \<open>
  Claim C3. For a pyramid with \<open>metatile_size = tile_size * metatiling\<close> (as the
  constructor sets it) and a non-negative integer zoom \<open>z\<close>, \<open>tile_width\<close> is
  \<open>min metatile_size (2 ^ z * tile_size * shape.width)\<close> and \<open>tile_height\<close> is
  \<open>min metatile_size (2 ^ z * tile_size * shape.height)\<close>.
\<close>

theorem tile_pixel_size_formula:
  assumes "metatile_size tp = tile_size tp * metatiling tp" and "0 \<le> z"
  shows "tile_width tp (PyInt z)
           = Inr (min (metatile_size tp)
                      (2 ^ nat z * tile_size tp * width (grid_shape (grid tp))))
       \<and> tile_height tp (PyInt z)
           = Inr (min (metatile_size tp)
                      (2 ^ nat z * tile_size tp * height (grid_shape (grid tp))))"
  using assms by (simp add: tile_width_def tile_height_def validate_zoom_Inr Let_def min_def)

theorem tile_pixel_size_formula_witness:
  "metatile_size (geodetic_pyramid 16)
     = tile_size (geodetic_pyramid 16) * metatiling (geodetic_pyramid 16)
   \<and> tile_width (geodetic_pyramid 16) (PyInt 1) = Inr 1024
   \<and> tile_height (geodetic_pyramid 16) (PyInt 1) = Inr 512
   \<and> tile_width (geodetic_pyramid 16) (PyInt 5) = Inr 4096"
proof -
  let ?tp = "geodetic_pyramid 16"
  have a: "metatile_size ?tp = tile_size ?tp * metatiling ?tp"
    by (simp add: geodetic_defs)
  have s: "width (grid_shape (grid ?tp)) = 2" "height (grid_shape (grid ?tp)) = 1"
    "metatile_size ?tp = 4096" "tile_size ?tp = 256" "metatiling ?tp = 16"
    by (simp_all add: geodetic_defs)
  show ?thesis
    using tile_pixel_size_formula [OF a, of 1] tile_pixel_size_formula [OF a, of 5]
    by (simp add: s)
qed

subsection \<open>Pixel sizes in map units\<close>

text \<open>
  Claim C2, at the grid of \<^verbatim>\<open>test_irregular_grids\<close> with metatiling 2 and zoom 0.
  The grid is conformal, its pixels are squares of 10 units, and the test asserts
  \<open>pixel_x_size(0) == pixel_y_size(0)\<close> and a pixel size of \<open>10.0\<close>; the code
  divides the extent by the rounded-up matrix size (158 columns, 81 rows) and a
  tile of 512 pixels, and gives two different sizes, neither of them 10.
\<close>

theorem pixel_size_irregular_metatiling_2:
  "conformal (irregular_pyramid 2)
   \<and> pixel_x_size 20 (irregular_pyramid 2) (PyInt 0)
       = Inr (124604430379746835443 / 12500000000000000000)
   \<and> pixel_y_size 20 (irregular_pyramid 2) (PyInt 0)
       = Inr (496913580246913580247 / 50000000000000000000)
   \<and> pixel_x_size 20 (irregular_pyramid 2) (PyInt 0)
       \<noteq> pixel_y_size 20 (irregular_pyramid 2) (PyInt 0)
   \<and> pixel_x_size 20 (irregular_pyramid 2) (PyInt 0) \<noteq> Inr 10"
  by (simp add: conformal_def irregular_defs pixel_x_size_def pixel_y_size_def
      tile_x_size_def tile_y_size_def tile_width_def tile_height_def matrix_width_def
      matrix_height_def validate_zoom_def py_round_def Let_def)

subsection \<open>Construction\<close>

text \<open>
  Claim C9. Construction fails with the \<open>ConstructionError\<close> "grid definition
  required" when the grid is missing, and with the \<open>ConstructionError\<close> on the
  metatiling when a grid is given and metatiling is not one of 1, 2, 4, 8, 16. With
  a grid given, a metatiling of these five and a grid definition \<open>g\<close> made of the grid
  argument, construction succeeds. A constructed pyramid \<open>tp\<close> has the tile size and
  the metatiling that were passed, the grid definition made of the grid argument and
  its bounds, reference system and globality, and the derived fields
  \<open>metatile_size = tile_size * metatiling\<close>, \<open>x_size = round(right - left, ROUND)\<close>
  and \<open>y_size = round(top - bottom, ROUND)\<close>.
\<close>

theorem construction:
  "TilePyramid_init G R GridNone ts mt = Inl ConstructionError_grid
   \<and> (ga \<noteq> GridNone \<and> mt \<notin> {1, 2, 4, 8, 16}
        \<longrightarrow> TilePyramid_init G R ga ts mt = Inl ConstructionError_metatiling)
   \<and> (ga \<noteq> GridNone \<and> mt \<in> {1, 2, 4, 8, 16} \<and> GridDefinition_init G ga = Inr g
        \<longrightarrow> (\<exists>tp'. TilePyramid_init G R ga ts mt = Inr tp' \<and> grid tp' = g))
   \<and> (TilePyramid_init G R ga ts mt = Inr tp
        \<longrightarrow> ga \<noteq> GridNone \<and> mt \<in> {1, 2, 4, 8, 16}
            \<and> GridDefinition_init G ga = Inr (grid tp)
            \<and> tile_size tp = ts \<and> metatiling tp = mt
            \<and> metatile_size tp = ts * mt
            \<and> bounds tp = grid_bounds (grid tp)
            \<and> (left tp, bottom tp, right tp, top' tp) = grid_bounds (grid tp)
            \<and> crs tp = grid_crs (grid tp)
            \<and> is_global tp = grid_is_global (grid tp)
            \<and> metatile_size tp = tile_size tp * metatiling tp
            \<and> x_size tp = py_round (right tp - left tp) R
            \<and> y_size tp = py_round (top' tp - bottom tp) R
            \<and> metatiling tp \<in> {1, 2, 4, 8, 16})"
proof -
  have 1: "TilePyramid_init G R GridNone ts mt = Inl ConstructionError_grid"
    by (simp add: TilePyramid_init_def)
  have 2: "TilePyramid_init G R ga ts mt = Inl ConstructionError_metatiling"
    if "ga \<noteq> GridNone" "mt \<notin> {1, 2, 4, 8, 16}"
    using that by (cases ga) (simp_all add: TilePyramid_init_def)
  have 3: "\<exists>tp'. TilePyramid_init G R ga ts mt = Inr tp' \<and> grid tp' = g"
    if "ga \<noteq> GridNone" "mt \<in> {1, 2, 4, 8, 16}" "GridDefinition_init G ga = Inr g"
    using that by (cases ga) (auto simp: TilePyramid_init_def TilePyramid_attrs_sel)
  have 4: "ga \<noteq> GridNone \<and> mt \<in> {1, 2, 4, 8, 16}
            \<and> GridDefinition_init G ga = Inr (grid tp)
            \<and> tile_size tp = ts \<and> metatiling tp = mt
            \<and> metatile_size tp = ts * mt
            \<and> bounds tp = grid_bounds (grid tp)
            \<and> (left tp, bottom tp, right tp, top' tp) = grid_bounds (grid tp)
            \<and> crs tp = grid_crs (grid tp)
            \<and> is_global tp = grid_is_global (grid tp)
            \<and> metatile_size tp = tile_size tp * metatiling tp
            \<and> x_size tp = py_round (right tp - left tp) R
            \<and> y_size tp = py_round (top' tp - bottom tp) R
            \<and> metatiling tp \<in> {1, 2, 4, 8, 16}"
    if "TilePyramid_init G R ga ts mt = Inr tp"
  proof -
    from TilePyramid_init_Inr [OF that] obtain g'
      where ga: "ga \<noteq> GridNone" and mt: "mt \<in> {1, 2, 4, 8, 16}"
        and g': "GridDefinition_init G ga = Inr g'"
        and tp: "tp = TilePyramid_attrs R g' ts mt"
      by blast
    show ?thesis
      unfolding tp using ga mt g'
      by (simp add: TilePyramid_attrs_sel TilePyramid_attrs_sizes)
  qed
  from 1 2 3 4 show ?thesis by blast
qed

theorem construction_witness:
  "GridObj irregular_grid \<noteq> (GridNone :: GridDefinition grid_arg)
   \<and> (3::int) \<notin> {1, 2, 4, 8, 16}
   \<and> TilePyramid_init plain_grid_module 20 (GridObj irregular_grid) 256 3
        = Inl ConstructionError_metatiling
   \<and> GridDefinition_init plain_grid_module (GridObj irregular_grid) = Inr irregular_grid
   \<and> TilePyramid_init plain_grid_module 20 (GridObj irregular_grid) 256 2
        = Inr (irregular_pyramid 2)
   \<and> grid (irregular_pyramid 2) = irregular_grid
   \<and> tile_size (irregular_pyramid 2) = 256
   \<and> metatiling (irregular_pyramid 2) = 2
   \<and> metatile_size (irregular_pyramid 2) = 512
   \<and> bounds (irregular_pyramid 2) = (141920, 89840, 948320, 502000)
   \<and> x_size (irregular_pyramid 2) = 806400
   \<and> y_size (irregular_pyramid 2) = 412160"
proof -
  have g: "GridDefinition_init plain_grid_module (GridObj irregular_grid) = Inr irregular_grid"
    by (simp add: plain_grid_module_def)
  have i: "TilePyramid_init plain_grid_module 20 (GridObj irregular_grid) 256 2
        = Inr (irregular_pyramid 2)"
    by (simp add: TilePyramid_init_def plain_grid_module_def irregular_pyramid_def)
  have b: "grid_bounds irregular_grid = (141920, 89840, 948320, 502000)"
    by (simp add: irregular_grid_def)
  have r: "py_round 806400 20 = 806400" "py_round 412160 20 = 412160"
    by (simp_all add: py_round_def Let_def)
  show ?thesis
    using g i
      construction [of plain_grid_module 20 256 3 "GridObj irregular_grid"
        irregular_grid "irregular_pyramid 2"]
      construction [of plain_grid_module 20 256 2 "GridObj irregular_grid"
        irregular_grid "irregular_pyramid 2"]
    by (simp add: b r)
qed

subsection \<open>Dictionary round trip\<close>

text \<open>
  Claim C4. For a pyramid \<open>tp\<close> (its metatiling one of 1, 2, 4, 8, 16) whose grid
  definition comes back equal from its own exported dictionary (the round trip of
  the grid module), \<open>from_dict (to_dict tp)\<close> succeeds and the pyramid it builds is
  \<open>==\<close> to \<open>tp\<close>.
\<close>

theorem dict_round_trip:
  assumes "metatiling tp \<in> {1, 2, 4, 8, 16}"
    and "GridDefinition_init G (GridDict (GridDefinition_to_dict G (grid tp))) = Inr g"
    and "GridDefinition_eq G g (grid tp)"
  shows "\<exists>tp'. from_dict G R (to_dict G tp) = Inr tp' \<and> TilePyramid_eq G tp' tp"
  using assms
  by (simp add: from_dict_def to_dict_def TilePyramid_init_def TilePyramid_eq_def
      TilePyramid_attrs_sel)

theorem dict_round_trip_witness:
  "metatiling (irregular_pyramid 4) \<in> {1, 2, 4, 8, 16}
   \<and> GridDefinition_init plain_grid_module
        (GridDict (GridDefinition_to_dict plain_grid_module (grid (irregular_pyramid 4))))
        = Inr irregular_grid
   \<and> GridDefinition_eq plain_grid_module irregular_grid (grid (irregular_pyramid 4))
   \<and> from_dict plain_grid_module 20 (to_dict plain_grid_module (irregular_pyramid 4))
        = Inr (irregular_pyramid 4)
   \<and> TilePyramid_eq plain_grid_module (irregular_pyramid 4) (irregular_pyramid 4)"
proof -
  have a: "metatiling (irregular_pyramid 4) \<in> {1, 2, 4, 8, 16}"
    by (simp add: irregular_pyramid_def TilePyramid_attrs_sel)
  have b: "GridDefinition_init plain_grid_module
        (GridDict (GridDefinition_to_dict plain_grid_module (grid (irregular_pyramid 4))))
        = Inr irregular_grid"
    by (simp add: plain_grid_module_def irregular_pyramid_def TilePyramid_attrs_sel)
  have c: "GridDefinition_eq plain_grid_module irregular_grid (grid (irregular_pyramid 4))"
    by (simp add: plain_grid_module_def irregular_pyramid_def TilePyramid_attrs_sel)
  have d: "from_dict plain_grid_module 20 (to_dict plain_grid_module (irregular_pyramid 4))
        = Inr (irregular_pyramid 4)"
    by (simp add: from_dict_def to_dict_def TilePyramid_init_def plain_grid_module_def
        irregular_pyramid_def TilePyramid_attrs_sel)
  from dict_round_trip [OF a b c, of 20] a b c d show ?thesis
    by simp
qed

subsection \<open>Equality, representation and hash\<close>

text \<open>
  Claim C8. Equality of pyramids is structural over grid, tile size and metatiling:
  two pyramids are \<open>==\<close> exactly when their grids are \<open>==\<close> and their tile sizes and
  metatilings are equal, so two pyramids built from equal grid, tile size and
  metatiling are \<open>==\<close>; two \<open>==\<close> pyramids have the same hash and the same
  representation, and the representation is never empty. The grid definition's own
  equality and string forms are those of the grid module: equal grid definitions are
  taken to have equal string forms.
\<close>

theorem equality_and_hash:
  assumes "\<forall>g h. GridDefinition_eq G g h \<longrightarrow>
             GridDefinition_str G g = GridDefinition_str G h
             \<and> GridDefinition_repr G g = GridDefinition_repr G h"
  shows "(TilePyramid_eq G a b \<longleftrightarrow>
            GridDefinition_eq G (grid a) (grid b) \<and> tile_size a = tile_size b
            \<and> metatiling a = metatiling b)
       \<and> (GridDefinition_eq G g h \<longrightarrow>
            TilePyramid_eq G (TilePyramid_attrs R g ts mt) (TilePyramid_attrs R' h ts mt)
            \<and> TilePyramid_hash py_hash G (TilePyramid_attrs R g ts mt)
                = TilePyramid_hash py_hash G (TilePyramid_attrs R' h ts mt))
       \<and> (TilePyramid_eq G a b \<longrightarrow>
            TilePyramid_hash py_hash G a = TilePyramid_hash py_hash G b
            \<and> TilePyramid_repr G a = TilePyramid_repr G b)
       \<and> TilePyramid_repr G a \<noteq> []"
  using assms
  by (auto simp: TilePyramid_eq_def TilePyramid_hash_def TilePyramid_repr_def
      TilePyramid_attrs_sel)

theorem equality_and_hash_witness:
  "TilePyramid_eq plain_grid_module (irregular_pyramid 2)
     (TilePyramid_attrs 3 irregular_grid 256 2)
   \<and> TilePyramid_hash length_hash plain_grid_module (irregular_pyramid 2)
       = TilePyramid_hash length_hash plain_grid_module (TilePyramid_attrs 3 irregular_grid 256 2)
   \<and> TilePyramid_repr plain_grid_module (irregular_pyramid 2)
       = ''TilePyramid(EPSG:31259, tile_size=256, metatiling=2)''"
proof -
  have c: "\<forall>g h. GridDefinition_eq plain_grid_module g h \<longrightarrow>
             GridDefinition_str plain_grid_module g = GridDefinition_str plain_grid_module h
             \<and> GridDefinition_repr plain_grid_module g = GridDefinition_repr plain_grid_module h"
    by (simp add: plain_grid_module_def)
  have e: "GridDefinition_eq plain_grid_module irregular_grid irregular_grid"
    by (simp add: plain_grid_module_def)
  have r: "TilePyramid_repr plain_grid_module (irregular_pyramid 2)
       = ''TilePyramid(EPSG:31259, tile_size=256, metatiling=2)''"
    by (simp add: TilePyramid_repr_def plain_grid_module_def irregular_defs str_int_def
        str_nat.simps)
  from equality_and_hash [OF c, of "irregular_pyramid 2" "TilePyramid_attrs 3 irregular_grid 256 2"
      irregular_grid irregular_grid 20 256 2 3 length_hash]
    e r show ?thesis by (simp add: irregular_pyramid_def TilePyramid_attrs_sel)
qed

subsection \<open>The tile at a point\<close>



subsection \<open>Tiles of a geometry\<close>

text \<open>
  Claim C6. For a valid zoom, \<open>tiles_from_geom\<close> yields nothing and raises nothing
  on an empty geometry, and fails with \<open>InvalidGeometry\<close>, having yielded nothing, on
  a non-empty invalid one. A valid point yields the one result of \<open>tile_from_xy\<close> at
  its coordinates (or fails as \<open>tile_from_xy\<close> does). A valid multi-point runs to its
  end with the tiles \<open>ts\<close> exactly when \<open>ts\<close> is the list of the results of
  \<open>tile_from_xy\<close> at its points, one per point and in their order, duplicates kept.
\<close>

theorem tiles_from_geom_dispatch:
  assumes "0 \<le> z"
  shows "(is_empty g \<longrightarrow> tiles_from_geom F tp g (PyInt z) = ([], None))
       \<and> (\<not> is_empty g \<and> \<not> is_valid g
            \<longrightarrow> tiles_from_geom F tp g (PyInt z) = ([], Some (InvalidGeometry (geom_type g))))
       \<and> (\<not> is_empty g \<and> is_valid g \<and> geom_type g = ''Point''
            \<longrightarrow> tiles_from_geom F tp g (PyInt z)
                  = (case tile_from_xy F tp (geom_x g) (geom_y g) (PyInt z) ''rb'' of
                       Inl e \<Rightarrow> ([], Some e) | Inr t \<Rightarrow> ([t], None)))
       \<and> (\<not> is_empty g \<and> is_valid g \<and> geom_type g = ''MultiPoint''
            \<longrightarrow> (tiles_from_geom F tp g (PyInt z) = (ts, None)
                   \<longleftrightarrow> map (\<lambda>p. tile_from_xy F tp (fst p) (snd p) (PyInt z) ''rb'')
                         (geom_points g) = map Inr ts))"
  using assms
  by (simp add: tiles_from_geom_def validate_zoom_Inr tiles_from_points_all)

theorem tiles_from_geom_dispatch_witness:
  "tiles_from_geom plain_funcs (irregular_pyramid 1) (sample_geometry True True ''Polygon'')
     (PyInt 0) = ([], None)
   \<and> tiles_from_geom plain_funcs (irregular_pyramid 1) (sample_geometry False False ''Polygon'')
       (PyInt 0) = ([], Some (ValueError ''no valid geometry: Polygon''))
   \<and> tiles_from_geom plain_funcs (irregular_pyramid 1) (sample_geometry False True ''Point'')
       (PyInt 0) = ([plain_tile (irregular_pyramid 1) 0], None)
   \<and> tiles_from_geom plain_funcs (irregular_pyramid 1)
       (sample_geometry False True ''MultiPoint'') (PyInt 0)
       = ([plain_tile (irregular_pyramid 1) 0, plain_tile (irregular_pyramid 1) 0], None)"
  using tiles_from_geom_dispatch [of 0 "sample_geometry True True ''Polygon''" plain_funcs
      "irregular_pyramid 1"]
    tiles_from_geom_dispatch [of 0 "sample_geometry False False ''Polygon''" plain_funcs
      "irregular_pyramid 1"]
    tiles_from_geom_dispatch [of 0 "sample_geometry False True ''Point''" plain_funcs
      "irregular_pyramid 1"]
    tiles_from_geom_dispatch [of 0 "sample_geometry False True ''MultiPoint''" plain_funcs
      "irregular_pyramid 1"
      "[plain_tile (irregular_pyramid 1) 0, plain_tile (irregular_pyramid 1) 0]"]
  by (simp add: sample_geometry_def tile_from_xy_plain_corner InvalidGeometry_def)

text \<open>
  Claim C10. For a valid zoom, \<open>tiles_from_geom\<close> on a non-empty valid geometry
  whose kind is none of Point, MultiPoint, LineString, MultiLineString, Polygon,
  MultiPolygon and GeometryCollection yields nothing and raises nothing.
\<close>

theorem tiles_from_geom_other_kind:
  assumes "valid_zoom zoom" and "\<not> is_empty g" and "is_valid g"
    and "geom_type g \<notin> set [''Point'', ''MultiPoint'', ''LineString'', ''MultiLineString'',
                              ''Polygon'', ''MultiPolygon'', ''GeometryCollection'']"
  shows "tiles_from_geom F tp g zoom = ([], None)"
proof -
  obtain z where z: "validate_zoom zoom = Inr z"
    using assms(1) validate_zoom_valid by blast
  show ?thesis using assms(2-4) by (simp add: tiles_from_geom_def z)
qed

theorem tiles_from_geom_other_kind_witness:
  "valid_zoom (PyInt 0)
   \<and> tiles_from_geom plain_funcs (irregular_pyramid 1)
       (sample_geometry False True ''LinearRing'') (PyInt 0) = ([], None)"
  using tiles_from_geom_other_kind [of "PyInt 0" "sample_geometry False True ''LinearRing''"
      plain_funcs "irregular_pyramid 1"]
  by (simp add: valid_zoom_def sample_geometry_def)

subsection \<open>Tiles of a bounding box\<close>

text \<open>
  Claim C7, as the code has it. \<open>tiles_from_bounds\<close> fails with \<open>InvalidZoom\<close> on
  an invalid zoom, whatever the bounds are. For a valid zoom it fails with
  \<open>InvalidArgument\<close> when the bounds are not a tuple or are a tuple of other than four
  elements. A tuple of four elements passes the guard whatever its elements are:
  the result is that of the global sweep for a global pyramid, of the sweep over
  cleaned bounds otherwise, at these four elements.
\<close>

theorem tiles_from_bounds_guard:
  "(\<not> valid_zoom zoom \<longrightarrow> tiles_from_bounds F tp bnds zoom = ([], Some InvalidZoom))
   \<and> (0 \<le> z \<and> (\<forall>vs. bnds = PyTuple vs \<longrightarrow> length vs \<noteq> 4)
        \<longrightarrow> tiles_from_bounds F tp bnds (PyInt z) = ([], Some InvalidArgument_bounds))
   \<and> (0 \<le> z
        \<longrightarrow> tiles_from_bounds F tp (PyTuple [l, b, r, t]) (PyInt z)
              = (if is_global tp then funcs_global_tiles_from_bounds F tp (l, b, r, t) z
                 else funcs_tiles_from_cleaned_bounds F tp (l, b, r, t) z))"
proof (intro conjI impI)
  assume "\<not> valid_zoom zoom"
  then show "tiles_from_bounds F tp bnds zoom = ([], Some InvalidZoom)"
    by (simp add: tiles_from_bounds_def validate_zoom_invalid)
next
  assume "0 \<le> z \<and> (\<forall>vs. bnds = PyTuple vs \<longrightarrow> length vs \<noteq> 4)"
  then show "tiles_from_bounds F tp bnds (PyInt z) = ([], Some InvalidArgument_bounds)"
    by (cases bnds) (simp_all add: tiles_from_bounds_def validate_zoom_Inr)
next
  assume "0 \<le> z"
  then show "tiles_from_bounds F tp (PyTuple [l, b, r, t]) (PyInt z)
              = (if is_global tp then funcs_global_tiles_from_bounds F tp (l, b, r, t) z
                 else funcs_tiles_from_cleaned_bounds F tp (l, b, r, t) z)"
    by (simp add: tiles_from_bounds_def validate_zoom_Inr)
qed

theorem tiles_from_bounds_guard_witness:
  "tiles_from_bounds plain_funcs (irregular_pyramid 1)
     (PyTuple [PyFloat 0, PyFloat 0, PyFloat 1, PyFloat 1]) (PyInt (- 1)) = ([], Some InvalidZoom)
   \<and> tiles_from_bounds plain_funcs (irregular_pyramid 1)
       (PyTuple [PyFloat 0, PyFloat 0, PyFloat 1, PyFloat 1]) (PyFloat 1) = ([], Some InvalidZoom)
   \<and> tiles_from_bounds plain_funcs (irregular_pyramid 1)
       (PyTuple [PyFloat 0, PyFloat 0, PyFloat 1]) (PyInt 0) = ([], Some InvalidArgument_bounds)
   \<and> tiles_from_bounds plain_funcs (irregular_pyramid 1)
       (PyList [PyFloat 0, PyFloat 0, PyFloat 1, PyFloat 1]) (PyInt 0)
       = ([], Some InvalidArgument_bounds)
   \<and> tiles_from_bounds plain_funcs (irregular_pyramid 1)
       (PyTuple [PyFloat 0, PyFloat 0, PyFloat 1, PyFloat 1]) (PyInt 0)
       = ([plain_tile (irregular_pyramid 1) 0], None)"
  using tiles_from_bounds_guard [of "PyInt (- 1)" plain_funcs "irregular_pyramid 1"
      "PyTuple [PyFloat 0, PyFloat 0, PyFloat 1, PyFloat 1]"]
    tiles_from_bounds_guard [of "PyFloat 1" plain_funcs "irregular_pyramid 1"
      "PyTuple [PyFloat 0, PyFloat 0, PyFloat 1, PyFloat 1]"]
    tiles_from_bounds_guard [of _ plain_funcs "irregular_pyramid 1"
      "PyTuple [PyFloat 0, PyFloat 0, PyFloat 1]" 0]
    tiles_from_bounds_guard [of _ plain_funcs "irregular_pyramid 1"
      "PyList [PyFloat 0, PyFloat 0, PyFloat 1, PyFloat 1]" 0]
    tiles_from_bounds_guard [of _ plain_funcs "irregular_pyramid 1" _ 0
      "PyFloat 0" "PyFloat 0" "PyFloat 1" "PyFloat 1"]
  by (simp add: valid_zoom_def irregular_pyramid_1_sel plain_funcs_sel)

text \<open>
  The claim as written has the elements checked to be numeric. A tuple of four
  strings is not refused: it is handed to the sweep as it is.
\<close>

theorem tiles_from_bounds_strings_counterexample:
  "tiles_from_bounds plain_funcs (irregular_pyramid 1)
     (PyTuple [PyStr ''a'', PyStr ''b'', PyStr ''c'', PyStr ''d'']) (PyInt 0)
     = funcs_tiles_from_cleaned_bounds plain_funcs (irregular_pyramid 1)
         (PyStr ''a'', PyStr ''b'', PyStr ''c'', PyStr ''d'') 0
   \<and> tiles_from_bounds plain_funcs (irregular_pyramid 1)
       (PyTuple [PyStr ''a'', PyStr ''b'', PyStr ''c'', PyStr ''d'']) (PyInt 0)
       \<noteq> ([], Some InvalidArgument_bounds)"
  by (simp add: tiles_from_bounds_def validate_zoom_def irregular_pyramid_1_sel plain_funcs_sel)

end
